theory Spec2Isabelle
  imports Main "HOL-Library.AList"
begin

section \<open>The discovery-node request client of @audius/libs\<close>

text \<open>
  A shallow embedding of the request and retry logic of the class
  \<^verbatim>\<open>DiscoveryProvider\<close> (file
  \<^verbatim>\<open>services/discoveryProvider/DiscoveryProvider.ts\<close>): the two staleness measures
  \<^verbatim>\<open>_getBlocksBehind\<close> and \<^verbatim>\<open>_getPlaysSlotsBehind\<close>, the endpoint check
  \<^verbatim>\<open>getHealthyDiscoveryProviderEndpoint\<close>, the recursive \<^verbatim>\<open>_makeRequest\<close> and the
  request builder \<^verbatim>\<open>_createDiscProvRequest\<close>. Isabelle names cannot start with an
  underscore, so the leading underscore of the private methods is dropped.
\<close>

subsection \<open>JavaScript values and numbers\<close>

text \<open>
  A field of a parsed JSON response is absent (\<^verbatim>\<open>undefined\<close>), \<^verbatim>\<open>null\<close>, an integer, or
  some other value that the conversion to a number maps to \<^verbatim>\<open>NaN\<close> (an object, a
  non-numeric string). Block and slot numbers are integers, so a number is \<^verbatim>\<open>NaN\<close> or
  an integer.
\<close>

datatype jsvalue = JUndefined | JNull | JNumber int | JOther

datatype jsnum = NaN | Fin int

fun toNumber :: "jsvalue \<Rightarrow> jsnum" where
  "toNumber JUndefined = NaN"
| "toNumber JNull = Fin 0"
| "toNumber (JNumber n) = Fin n"
| "toNumber JOther = NaN"

text \<open>The operator \<^verbatim>\<open>a - b\<close> and the comparison \<^verbatim>\<open>a > b\<close> on numbers.\<close>

fun js_minus :: "jsnum \<Rightarrow> jsnum \<Rightarrow> jsnum" where
  "js_minus (Fin a) (Fin b) = Fin (a - b)"
| "js_minus _ _ = NaN"

fun js_greater :: "jsnum \<Rightarrow> jsnum \<Rightarrow> bool" where
  "js_greater (Fin a) (Fin b) = (a > b)"
| "js_greater _ _ = False"

text \<open>
  Truthiness, as tested by \<^verbatim>\<open>if (x)\<close>, \<^verbatim>\<open>!x\<close> and \<^verbatim>\<open>a && b\<close>: of an optional
  number (\<open>None\<close> is \<^verbatim>\<open>null\<close> or \<^verbatim>\<open>undefined\<close>) and of an optional string.
\<close>

fun truthy_num :: "jsnum option \<Rightarrow> bool" where
  "truthy_num None = False"
| "truthy_num (Some NaN) = False"
| "truthy_num (Some (Fin n)) = (n \<noteq> 0)"

fun truthy_int :: "int option \<Rightarrow> bool" where
  "truthy_int None = False"
| "truthy_int (Some n) = (n \<noteq> 0)"

fun truthy_str :: "string option \<Rightarrow> bool" where
  "truthy_str None = False"
| "truthy_str (Some s) = (s \<noteq> [])"

subsection \<open>The endpoint selector\<close>

text \<open>
  The class \<^verbatim>\<open>DiscoveryProviderSelection\<close> is imported by the source but its file is
  not among the available sources. Its state and the three methods that the request client
  calls are modelled from the specification (section 4.2). What a probe round finds is
  decided by the network: each call of \<^verbatim>\<open>select()\<close> reads one \<open>probe\<close>.
\<close>

record selector =
  currentEndpoint :: "string option"
  unhealthySet :: "string option set"

record probe =
  cacheExpired :: bool
  winner :: "string option"

text \<open>
  Modelled from the spec: \<^verbatim>\<open>addUnhealthy(endpoint)\<close> of the missing selector class,
  "adds to \<^verbatim>\<open>unhealthySet\<close>". The argument is whatever the caller holds, possibly
  \<^verbatim>\<open>undefined\<close>.
\<close>

definition addUnhealthy :: "selector \<Rightarrow> string option \<Rightarrow> selector" where
  "addUnhealthy s e = s\<lparr>unhealthySet := insert e (unhealthySet s)\<rparr>"

text \<open>
  Modelled from the spec: \<^verbatim>\<open>clearCached()\<close> of the missing selector class, "drops
  \<^verbatim>\<open>currentEndpoint\<close>, forcing the next \<^verbatim>\<open>select()\<close> to re-probe".
\<close>

definition clearCached :: "selector \<Rightarrow> selector" where
  "clearCached s = s\<lparr>currentEndpoint := None\<rparr>"

text \<open>
  Modelled from the spec: \<^verbatim>\<open>select()\<close> of the missing selector class, "returns
  \<^verbatim>\<open>currentEndpoint\<close> if still valid (not stale per cache timeout, not in
  \<^verbatim>\<open>unhealthySet\<close>); otherwise probes all eligible candidates and picks the best
  candidate; if no candidate is reachable, returns null". The winner of the probe round
  is \<open>winner pr\<close> and becomes the cached selection.
\<close>

definition select :: "selector \<Rightarrow> probe \<Rightarrow> string option \<times> selector" where
  "select s pr =
     (if currentEndpoint s \<noteq> None \<and> \<not> cacheExpired pr \<and> currentEndpoint s \<notin> unhealthySet s
      then (currentEndpoint s, s)
      else (winner pr, s\<lparr>currentEndpoint := winner pr\<rparr>))"

subsection \<open>The provider object\<close>

text \<open>
  The fields of a \<^verbatim>\<open>DiscoveryProvider\<close> that the request path reads or writes.
  \<open>ethContracts\<close> is true when the collaborator object is present (truthy);
  \<open>unhealthySlotDiffPlays\<close> is \<open>None\<close> when it is \<^verbatim>\<open>undefined\<close> or \<^verbatim>\<open>null\<close>.
\<close>

record provider =
  ethContracts :: bool
  unhealthyBlockDiff :: int
  serviceSelector :: selector
  selectionRequestTimeout :: int
  selectionRequestRetries :: int
  unhealthySlotDiffPlays :: "int option"
  request404Count :: int
  maxRequestsForTrue404 :: int
  discoveryProviderEndpoint :: "string option"

definition MAX_MAKE_REQUEST_RETRY_COUNT :: int where
  "MAX_MAKE_REQUEST_RETRY_COUNT = 5"

definition MAX_MAKE_REQUEST_RETRIES_WITH_404 :: int where
  "MAX_MAKE_REQUEST_RETRIES_WITH_404 = 2"

text \<open>
  The constructor. The constants \<^verbatim>\<open>DEFAULT_UNHEALTHY_BLOCK_DIFF\<close> and
  \<^verbatim>\<open>REQUEST_TIMEOUT_MS\<close> come from a file that is not among the available sources and
  are parameters here; the optional arguments are \<open>None\<close> when omitted
  (\<^verbatim>\<open>x ?? d\<close> is \<open>case x of None \<Rightarrow> d | Some v \<Rightarrow> v\<close>).
\<close>

definition DiscoveryProvider ::
  "int \<Rightarrow> int \<Rightarrow> bool \<Rightarrow> int option \<Rightarrow> int option \<Rightarrow> int option \<Rightarrow> int option \<Rightarrow> provider" where
  "DiscoveryProvider DEFAULT_UNHEALTHY_BLOCK_DIFF REQUEST_TIMEOUT_MS ethContractsArg
      selectionRequestTimeoutArg selectionRequestRetriesArg unhealthySlotDiffPlaysArg
      unhealthyBlockDiffArg =
     \<lparr> ethContracts = ethContractsArg,
       unhealthyBlockDiff =
         (case unhealthyBlockDiffArg of None \<Rightarrow> DEFAULT_UNHEALTHY_BLOCK_DIFF | Some v \<Rightarrow> v),
       serviceSelector = \<lparr> currentEndpoint = None, unhealthySet = {} \<rparr>,
       selectionRequestTimeout =
         (case selectionRequestTimeoutArg of None \<Rightarrow> REQUEST_TIMEOUT_MS | Some v \<Rightarrow> v),
       selectionRequestRetries =
         (case selectionRequestRetriesArg of
            None \<Rightarrow> MAX_MAKE_REQUEST_RETRY_COUNT | Some v \<Rightarrow> v),
       unhealthySlotDiffPlays = unhealthySlotDiffPlaysArg,
       request404Count = 0,
       maxRequestsForTrue404 = MAX_MAKE_REQUEST_RETRIES_WITH_404,
       discoveryProviderEndpoint = None \<rparr>"

definition setEndpoint :: "provider \<Rightarrow> string option \<Rightarrow> provider" where
  "setEndpoint p e = p\<lparr>discoveryProviderEndpoint := e\<rparr>"

subsection \<open>Staleness of a response\<close>

text \<open>
  A parsed response: the four health fields and the payload \<open>data\<close>. The value handed
  to the two measures is \<open>None\<close> when the parsed response is \<^verbatim>\<open>null\<close> or
  \<^verbatim>\<open>undefined\<close>: only then does the destructuring inside the \<^verbatim>\<open>try\<close> throw. Reading an
  absent field of an object yields \<^verbatim>\<open>undefined\<close> and does not throw.
\<close>

record response =
  latest_indexed_block :: jsvalue
  latest_chain_block :: jsvalue
  latest_indexed_slot_plays :: jsvalue
  latest_chain_slot_plays :: jsvalue
  data :: string

definition getBlocksBehind :: "provider \<Rightarrow> response option \<Rightarrow> jsnum option" where
  "getBlocksBehind p parsedResponse =
     (case parsedResponse of
        None \<Rightarrow> Some (Fin (unhealthyBlockDiff p))
      | Some r \<Rightarrow>
          (let indexedBlock = latest_indexed_block r;
               chainBlock = latest_chain_block r;
               blockDiff = js_minus (toNumber chainBlock) (toNumber indexedBlock)
           in if js_greater blockDiff (Fin (unhealthyBlockDiff p)) then Some blockDiff
              else None))"

text \<open>
  The guard \<^verbatim>\<open>if (!this.unhealthySlotDiffPlays) return null\<close> holds when the threshold
  is \<^verbatim>\<open>undefined\<close>, \<^verbatim>\<open>null\<close> or the number 0.
\<close>

definition getPlaysSlotsBehind :: "provider \<Rightarrow> response option \<Rightarrow> jsnum option" where
  "getPlaysSlotsBehind p parsedResponse =
     (if \<not> truthy_int (unhealthySlotDiffPlays p) then None
      else
        (case unhealthySlotDiffPlays p of
           None \<Rightarrow> None
         | Some threshold \<Rightarrow>
             (case parsedResponse of
                None \<Rightarrow> Some (Fin threshold)
              | Some r \<Rightarrow>
                  (let indexedSlotPlays = latest_indexed_slot_plays r;
                       chainSlotPlays = latest_chain_slot_plays r;
                       slotDiff =
                         js_minus (toNumber chainSlotPlays) (toNumber indexedSlotPlays)
                   in if js_greater slotDiff (Fin threshold) then Some slotDiff
                      else None))))"

subsection \<open>One HTTP request\<close>

text \<open>
  What the network does with one request. \<open>Resolved r\<close>: axios resolved and the
  response was parsed to \<open>r\<close>. \<open>Rejected st msg\<close>: axios (or the parsing) threw an error;
  \<open>st\<close> is \<^verbatim>\<open>error.response.status\<close> when the error carries a response, and \<open>msg\<close> is
  the \<^verbatim>\<open>message\<close> property of the value \<^verbatim>\<open>error.response?.data ?? error\<close>.
  \<^verbatim>\<open>_performRequestWithMonitoring\<close> returns the parsed response, or throws
  \<^verbatim>\<open>new Error('404')\<close> when the status is 404 and that value otherwise; a thrown value
  is represented by its \<^verbatim>\<open>message\<close>. The monitoring callbacks run inside their own
  \<^verbatim>\<open>try\<close> blocks, which swallow every error, and do not change the result.
\<close>

datatype axios_result =
    Resolved "response option"
  | Rejected "nat option" "string option"

definition performRequestWithMonitoring :: "axios_result \<Rightarrow> string option + response option" where
  "performRequestWithMonitoring res =
     (case res of
        Resolved parsedResponse \<Rightarrow> Inr parsedResponse
      | Rejected status errMsg \<Rightarrow>
          (if status = Some 404 then Inl (Some ''404'') else Inl errMsg))"

text \<open>
  One attempt of the world: the outcome of the request and the answer of
  \<^verbatim>\<open>ethContracts.isInRegressedMode()\<close> at that moment.
\<close>

record attempt =
  reply :: axios_result
  isInRegressedMode :: bool

subsection \<open>Results of asynchronous calls\<close>

text \<open>
  A call returns a value, throws, or is still waiting for the network when the script of
  the world (the list of attempts, the list of probe rounds) is used up.
\<close>

datatype error = AllUnhealthy | TypeError

datatype 'a async = Pending | Threw error | Returned 'a

datatype jsresult = Data string | Null | Undefined

subsection \<open>Choosing the endpoint of a request\<close>

text \<open>
  The final check of \<^verbatim>\<open>getHealthyDiscoveryProviderEndpoint\<close>:
  \<^verbatim>\<open>if (!endpoint) throw new Error('All Discovery Providers are unhealthy and unavailable.')\<close>,
  else \<^verbatim>\<open>return endpoint\<close>. An endpoint is falsy when it is \<^verbatim>\<open>undefined\<close>, \<^verbatim>\<open>null\<close> or the
  empty string.
\<close>

definition throwIfNone :: "string option \<Rightarrow> string async" where
  "throwIfNone endpoint =
     (case endpoint of
        None \<Rightarrow> Threw AllUnhealthy
      | Some u \<Rightarrow> if u = [] then Threw AllUnhealthy else Returned u)"

text \<open>
  When the retries are used up the current endpoint is reported unhealthy, the cache is
  cleared and a new endpoint is selected; the call of \<^verbatim>\<open>select()\<close> waits for a probe
  round of the world.
\<close>

definition getHealthyDiscoveryProviderEndpoint ::
  "provider \<Rightarrow> probe list \<Rightarrow> int \<Rightarrow> string async \<times> provider \<times> probe list" where
  "getHealthyDiscoveryProviderEndpoint p probes attemptedRetries =
     (let endpoint = discoveryProviderEndpoint p
      in if attemptedRetries > selectionRequestRetries p then
           (let s1 = addUnhealthy (serviceSelector p) endpoint;
                s2 = clearCached s1
            in case probes of
                 [] \<Rightarrow> (Pending, p\<lparr>serviceSelector := s2\<rparr>, [])
               | pr # rest \<Rightarrow>
                   (let (endpoint', s3) = select s2 pr
                    in (throwIfNone endpoint', p\<lparr>serviceSelector := s3\<rparr>, rest)))
         else (throwIfNone endpoint, p, probes))"

text \<open>
  The first \<^verbatim>\<open>try\<close> block of \<^verbatim>\<open>_makeRequest\<close>: ask for the endpoint; when it is not the
  one in \<^verbatim>\<open>this.discoveryProviderEndpoint\<close>, store it and set \<^verbatim>\<open>attemptedRetries\<close> to 0.
  The result carries the value of \<^verbatim>\<open>attemptedRetries\<close> after the block.
\<close>

definition makeRequest_select ::
  "provider \<Rightarrow> probe list \<Rightarrow> int \<Rightarrow> int async \<times> provider \<times> probe list" where
  "makeRequest_select p probes attemptedRetries =
     (case getHealthyDiscoveryProviderEndpoint p probes attemptedRetries of
        (Pending, p1, probes1) \<Rightarrow> (Pending, p1, probes1)
      | (Threw e, p1, probes1) \<Rightarrow> (Threw e, p1, probes1)
      | (Returned newDiscProvEndpoint, p1, probes1) \<Rightarrow>
          (if discoveryProviderEndpoint p1 \<noteq> Some newDiscProvEndpoint
           then (Returned 0, p1\<lparr>discoveryProviderEndpoint := Some newDiscProvEndpoint\<rparr>, probes1)
           else (Returned attemptedRetries, p1, probes1)))"

subsection \<open>The request with retries\<close>

text \<open>
  \<^verbatim>\<open>_makeRequest(requestObj, retry, attemptedRetries)\<close>. The request object decides
  only what is sent; what comes back is the next attempt of the world, so the object is
  not an argument here. The result is the outcome, the provider after the call and the
  part of the world that was not used. The recursion of the source consumes one attempt
  per call.
\<close>

fun makeRequest ::
  "provider \<Rightarrow> attempt list \<Rightarrow> probe list \<Rightarrow> bool \<Rightarrow> int
     \<Rightarrow> jsresult async \<times> provider \<times> attempt list \<times> probe list" where
  "makeRequest p attempts probes retry attemptedRetries =
     (case makeRequest_select p probes attemptedRetries of
        (Pending, p1, probes1) \<Rightarrow> (Pending, p1, attempts, probes1)
      | (Threw e, p1, probes1) \<Rightarrow> (Returned Undefined, p1, attempts, probes1)
      | (Returned attemptedRetries1, p1, probes1) \<Rightarrow>
          (case attempts of
             [] \<Rightarrow> (Pending, p1, [], probes1)
           | at # rest \<Rightarrow>
               (case performRequestWithMonitoring (reply at) of
                  Inl message \<Rightarrow>
                    (if retry then
                       (if message = Some ''404'' then
                          (let p2 = p1\<lparr>request404Count := request404Count p1 + 1\<rparr>
                           in if request404Count p2 < maxRequestsForTrue404 p2
                              then makeRequest p2 rest probes1 retry
                                     (selectionRequestRetries p2 + 1)
                              else (Returned Null, p2\<lparr>request404Count := 0\<rparr>, rest, probes1))
                        else makeRequest p1 rest probes1 retry (attemptedRetries1 + 1))
                     else (Returned Null, p1, rest, probes1))
                | Inr parsedResponse \<Rightarrow>
                    (let notInRegressedMode = (ethContracts p1 \<and> \<not> isInRegressedMode at);
                         blockDiff = getBlocksBehind p1 parsedResponse
                     in if notInRegressedMode \<and> truthy_num blockDiff then
                          (if retry
                           then makeRequest p1 rest probes1 retry (attemptedRetries1 + 1)
                           else (Returned Null, p1, rest, probes1))
                        else
                          (let playsSlotDiff = getPlaysSlotsBehind p1 parsedResponse
                           in if notInRegressedMode \<and> truthy_num playsSlotDiff then
                                (if retry
                                 then makeRequest p1 rest probes1 retry (attemptedRetries1 + 1)
                                 else (Returned Null, p1, rest, probes1))
                              else
                                (let p2 = p1\<lparr>request404Count := 0\<rparr>
                                 in case parsedResponse of
                                      None \<Rightarrow> (Threw TypeError, p2, rest, probes1)
                                    | Some r \<Rightarrow> (Returned (Data (data r)), p2, rest, probes1)))))))"

declare makeRequest.simps [simp del]

subsection \<open>Building the HTTP request\<close>

text \<open>
  The request object. \<open>queryParams\<close> keeps the order of the keys; a value \<open>None\<close> is
  \<^verbatim>\<open>undefined\<close> or \<^verbatim>\<open>null\<close>. The fields \<^verbatim>\<open>data\<close> and \<^verbatim>\<open>method\<close> of the source
  are \<open>requestData\<close> and \<open>requestMethod\<close> here (a response has a field \<open>data\<close> too, and
  \<open>method\<close> is a keyword of Isabelle).
\<close>

record requestParams =
  queryParams :: "(string \<times> string option) list option"
  endpoint :: string
  timeout :: "int option"
  requestMethod :: "string option"
  urlParams :: "string option"
  headers :: "(string \<times> string) list option"
  requestData :: "string option"

record axiosRequestConfig =
  ax_url :: string
  ax_headers :: "(string \<times> string) list"
  ax_method :: string
  ax_timeout :: int
  ax_data :: "string option"

text \<open>
  \<^verbatim>\<open>Object.entries(requestObj.queryParams).forEach(([k, v]) => { if (v === undefined || v === null) delete requestObj.queryParams[k] })\<close>:
  the entries are listed first, then each entry without a value has its key deleted from
  the object itself.
\<close>

definition sanitizeQueryParams ::
  "(string \<times> string option) list \<Rightarrow> (string \<times> string option) list" where
  "sanitizeQueryParams qs =
     fold (\<lambda>(k, v) obj. if v = None then AList.delete k obj else obj) qs qs"

text \<open>
  \<^verbatim>\<open>_createDiscProvRequest(requestObj, discoveryProviderEndpoint)\<close>. The library function
  \<^verbatim>\<open>urlJoin\<close> and the answer of \<^verbatim>\<open>userStateManager.getCurrentUserId()\<close> are parameters.
  The source works on the caller's object: the deletions above, and the assignment
  \<^verbatim>\<open>headers['X-User-ID'] = currentUserId\<close> when \<^verbatim>\<open>headers\<close> is the object's own
  \<^verbatim>\<open>headers\<close>, change it. The result is the axios request and the request object after
  the call.
\<close>

definition createDiscProvRequest ::
  "(string \<Rightarrow> string \<Rightarrow> string option \<Rightarrow> (string \<times> string option) list option \<Rightarrow> string)
     \<Rightarrow> provider \<Rightarrow> string option \<Rightarrow> requestParams \<Rightarrow> string
     \<Rightarrow> axiosRequestConfig \<times> requestParams" where
  "createDiscProvRequest urlJoin p currentUserId requestObj discoveryProviderEndpointArg =
     (let requestObj1 =
            (case queryParams requestObj of
               None \<Rightarrow> requestObj
             | Some qs \<Rightarrow> requestObj\<lparr>queryParams := Some (sanitizeQueryParams qs)\<rparr>);
          requestUrl =
            urlJoin discoveryProviderEndpointArg (endpoint requestObj1) (urlParams requestObj1)
              (queryParams requestObj1);
          (headers1, requestObj2) =
            (case headers requestObj1 of
               None \<Rightarrow>
                 (case currentUserId of
                    None \<Rightarrow> ([], requestObj1)
                  | Some uid \<Rightarrow>
                      (if uid = [] then [] else [(''X-User-ID'', uid)], requestObj1))
             | Some h \<Rightarrow>
                 (case currentUserId of
                    None \<Rightarrow> (h, requestObj1)
                  | Some uid \<Rightarrow>
                      (if uid = [] then (h, requestObj1)
                       else (let h' = AList.update ''X-User-ID'' uid h
                             in (h', requestObj1\<lparr>headers := Some h'\<rparr>)))));
          timeout1 =
            (case timeout requestObj2 of
               None \<Rightarrow> selectionRequestTimeout p | Some t \<Rightarrow> t);
          axiosRequest =
            \<lparr> ax_url = requestUrl,
              ax_headers = headers1,
              ax_method = (case requestMethod requestObj2 of None \<Rightarrow> ''get'' | Some m \<Rightarrow> m),
              ax_timeout = timeout1,
              ax_data = None \<rparr>
      in if requestMethod requestObj2 = Some ''post'' \<and> requestData requestObj2 \<noteq> None
         then (axiosRequest\<lparr>ax_data := requestData requestObj2\<rparr>, requestObj2)
         else (axiosRequest, requestObj2))"

subsection \<open>Not-found replies and sample data\<close>

text \<open>
  An attempt whose request ends in the distinguished not-found error: the value thrown by
  \<^verbatim>\<open>_performRequestWithMonitoring\<close> has the message \<^verbatim>\<open>'404'\<close>.
\<close>

definition notFound :: "attempt \<Rightarrow> bool" where
  "notFound at = (performRequestWithMonitoring (reply at) = Inl (Some ''404''))"

text \<open>
  An attempt that a retrying call answers with \<^verbatim>\<open>_makeRequest(requestObj, retry, attemptedRetries + 1)\<close>:
  the request ends in an error other than the not-found error, or the response is stale
  by the block measure or by the slot measure while the provider is not in regressed
  mode.
\<close>

definition retriedAttempt :: "provider \<Rightarrow> attempt \<Rightarrow> bool" where
  "retriedAttempt p at =
     (case performRequestWithMonitoring (reply at) of
        Inl message \<Rightarrow> message \<noteq> Some ''404''
      | Inr parsedResponse \<Rightarrow>
          (ethContracts p \<and> \<not> isInRegressedMode at)
          \<and> (truthy_num (getBlocksBehind p parsedResponse)
               \<or> truthy_num (getPlaysSlotsBehind p parsedResponse)))"

text \<open>
  Sample objects for the concrete runs below: a provider built by the constructor with
  every optional argument omitted (retry budget 5, not-found budget 2) and an endpoint
  set as \<^verbatim>\<open>init()\<close> does, a second one with a slot threshold of 10, some attempts and
  probe rounds, and some responses.
\<close>

definition exampleProvider :: provider where
  "exampleProvider =
     setEndpoint (DiscoveryProvider 15 30000 True None None None None) (Some ''https://dn1'')"

definition slotProvider :: provider where
  "slotProvider =
     setEndpoint (DiscoveryProvider 15 30000 True None None (Some 10) None) (Some ''https://dn1'')"

definition notFoundAttempt :: attempt where
  "notFoundAttempt = \<lparr> reply = Rejected (Some 404) None, isInRegressedMode = False \<rparr>"

definition failedAttempt :: attempt where
  "failedAttempt =
     \<lparr> reply = Rejected (Some 500) (Some ''Request failed with status code 500''),
       isInRegressedMode = False \<rparr>"

definition probeFinds :: "string option \<Rightarrow> probe" where
  "probeFinds e = \<lparr> cacheExpired = False, winner = e \<rparr>"

definition laggingResponse :: response where
  "laggingResponse =
     \<lparr> latest_indexed_block = JNumber 1000, latest_chain_block = JNumber 1500,
       latest_indexed_slot_plays = JNumber 300, latest_chain_slot_plays = JNumber 1000,
       data = ''payload'' \<rparr>"

definition staleAttempt :: attempt where
  "staleAttempt = \<lparr> reply = Resolved (Some laggingResponse), isInRegressedMode = False \<rparr>"

definition missingFieldsResponse :: response where
  "missingFieldsResponse =
     \<lparr> latest_indexed_block = JUndefined, latest_chain_block = JUndefined,
       latest_indexed_slot_plays = JUndefined, latest_chain_slot_plays = JUndefined,
       data = ''payload'' \<rparr>"

definition exampleUrlJoin ::
  "string \<Rightarrow> string \<Rightarrow> string option \<Rightarrow> (string \<times> string option) list option \<Rightarrow> string" where
  "exampleUrlJoin base path params query = base @ ''/'' @ path"

definition exampleRequest :: requestParams where
  "exampleRequest =
     \<lparr> queryParams = Some [(''limit'', Some ''100''), (''handle'', None)],
       endpoint = ''users'',
       timeout = None,
       requestMethod = None,
       urlParams = None,
       headers = None,
       requestData = None \<rparr>"

section \<open>Properties\<close>

subsection \<open>Unfolding the sample data and one call\<close>

lemmas sample_defs =
  exampleProvider_def slotProvider_def notFoundAttempt_def failedAttempt_def probeFinds_def
  laggingResponse_def staleAttempt_def missingFieldsResponse_def exampleUrlJoin_def
  exampleRequest_def
  DiscoveryProvider_def setEndpoint_def MAX_MAKE_REQUEST_RETRY_COUNT_def
  MAX_MAKE_REQUEST_RETRIES_WITH_404_def

lemmas call_defs =
  makeRequest_select_def getHealthyDiscoveryProviderEndpoint_def throwIfNone_def select_def
  clearCached_def addUnhealthy_def performRequestWithMonitoring_def getBlocksBehind_def
  getPlaysSlotsBehind_def Let_def

lemma makeRequest_Nil:
  "makeRequest_select p probes a = (Returned a1, p1, probes1) \<Longrightarrow>
   makeRequest p [] probes retry a = (Pending, p1, [], probes1)"
  by (subst makeRequest.simps) simp

lemma makeRequest_selection_failed:
  "getHealthyDiscoveryProviderEndpoint p probes a = (Threw e, p1, probes1) \<Longrightarrow>
   makeRequest p attempts probes retry a = (Returned Undefined, p1, attempts, probes1)"
  by (subst makeRequest.simps) (simp add: makeRequest_select_def)

lemma makeRequest_notFound:
  "makeRequest_select p probes a = (Returned a1, p1, probes1) \<Longrightarrow> notFound at \<Longrightarrow>
   makeRequest p (at # rest) probes True a =
     (if request404Count p1 + 1 < maxRequestsForTrue404 p1
      then makeRequest (p1\<lparr>request404Count := request404Count p1 + 1\<rparr>) rest probes1 True
             (selectionRequestRetries p1 + 1)
      else (Returned Null, p1\<lparr>request404Count := 0\<rparr>, rest, probes1))"
  by (subst makeRequest.simps) (simp add: notFound_def Let_def)

lemma makeRequest_resolved:
  "makeRequest_select p probes a = (Returned a1, p1, probes1) \<Longrightarrow>
   reply at = Resolved parsedResponse \<Longrightarrow>
   makeRequest p (at # rest) probes retry a =
     (let notInRegressedMode = (ethContracts p1 \<and> \<not> isInRegressedMode at)
      in if notInRegressedMode \<and> truthy_num (getBlocksBehind p1 parsedResponse)
            \<or> notInRegressedMode \<and> truthy_num (getPlaysSlotsBehind p1 parsedResponse)
         then (if retry then makeRequest p1 rest probes1 retry (a1 + 1)
               else (Returned Null, p1, rest, probes1))
         else (case parsedResponse of
                 None \<Rightarrow> (Threw TypeError, p1\<lparr>request404Count := 0\<rparr>, rest, probes1)
               | Some r \<Rightarrow>
                   (Returned (Data (data r)), p1\<lparr>request404Count := 0\<rparr>, rest, probes1)))"
  by (subst makeRequest.simps) (simp add: performRequestWithMonitoring_def Let_def)

lemma select_kept:
  "a \<le> selectionRequestRetries p \<Longrightarrow> truthy_str (discoveryProviderEndpoint p) \<Longrightarrow>
   makeRequest_select p probes a = (Returned a, p, probes)"
  by (cases "discoveryProviderEndpoint p")
     (auto simp: makeRequest_select_def getHealthyDiscoveryProviderEndpoint_def throwIfNone_def)

lemma makeRequest_Cons:
  assumes sel: "makeRequest_select p probes a = (Returned a1, p1, probes1)"
  shows "makeRequest p (at # rest) probes retry a =
     (case performRequestWithMonitoring (reply at) of
        Inl message \<Rightarrow>
          (if retry then
             (if message = Some ''404'' then
                (if request404Count p1 + 1 < maxRequestsForTrue404 p1
                 then makeRequest (p1\<lparr>request404Count := request404Count p1 + 1\<rparr>) rest
                        probes1 retry (selectionRequestRetries p1 + 1)
                 else (Returned Null, p1\<lparr>request404Count := 0\<rparr>, rest, probes1))
              else makeRequest p1 rest probes1 retry (a1 + 1))
           else (Returned Null, p1, rest, probes1))
      | Inr parsedResponse \<Rightarrow>
          (if (ethContracts p1 \<and> \<not> isInRegressedMode at)
                \<and> (truthy_num (getBlocksBehind p1 parsedResponse)
                     \<or> truthy_num (getPlaysSlotsBehind p1 parsedResponse))
           then (if retry then makeRequest p1 rest probes1 retry (a1 + 1)
                 else (Returned Null, p1, rest, probes1))
           else (case parsedResponse of
                   None \<Rightarrow> (Threw TypeError, p1\<lparr>request404Count := 0\<rparr>, rest, probes1)
                 | Some r \<Rightarrow>
                     (Returned (Data (data r)), p1\<lparr>request404Count := 0\<rparr>, rest, probes1))))"
proof (cases "performRequestWithMonitoring (reply at)")
  case (Inl message)
  then show ?thesis
    by (subst makeRequest.simps) (simp add: sel Let_def)
next
  case (Inr parsedResponse)
  then show ?thesis
    by (subst makeRequest.simps) (simp add: sel Let_def)
qed

lemma getHealthyDiscoveryProviderEndpoint_preserves:
  "getHealthyDiscoveryProviderEndpoint p probes a = (r, p1, probes1) \<Longrightarrow>
   ethContracts p1 = ethContracts p
   \<and> unhealthyBlockDiff p1 = unhealthyBlockDiff p
   \<and> unhealthySlotDiffPlays p1 = unhealthySlotDiffPlays p
   \<and> discoveryProviderEndpoint p1 = discoveryProviderEndpoint p"
  by (auto simp: getHealthyDiscoveryProviderEndpoint_def Let_def select_def clearCached_def
        addUnhealthy_def
      split: if_splits list.splits prod.splits)

lemma retriedAttempt_cong:
  assumes "ethContracts q = ethContracts p" "unhealthyBlockDiff q = unhealthyBlockDiff p"
    "unhealthySlotDiffPlays q = unhealthySlotDiffPlays p"
  shows "retriedAttempt q at = retriedAttempt p at"
  unfolding retriedAttempt_def getBlocksBehind_def getPlaysSlotsBehind_def assms
  by (rule refl)

lemma makeRequest_select_Returned:
  "getHealthyDiscoveryProviderEndpoint p probes a = (Returned e, p1, probes1) \<Longrightarrow>
   makeRequest_select p probes a =
     (Returned (if discoveryProviderEndpoint p = Some e then a else 0),
      p1\<lparr>discoveryProviderEndpoint := Some e\<rparr>, probes1)"
  by (auto simp: makeRequest_select_def getHealthyDiscoveryProviderEndpoint_def Let_def
      split: if_splits list.splits prod.splits)

lemma makeRequest_retried:
  assumes sel: "makeRequest_select p probes a = (Returned a1, p1, probes1)"
    and at: "retriedAttempt p1 at"
  shows "makeRequest p (at # rest) probes retry a =
           (if retry then makeRequest p1 rest probes1 retry (a1 + 1)
            else (Returned Null, p1, rest, probes1))"
  using at unfolding makeRequest_Cons[OF sel] retriedAttempt_def
  by (auto split: sum.splits)

lemma makeRequest_no_retry_error:
  assumes sel: "makeRequest_select p probes a = (Returned a1, p1, probes1)"
    and at: "performRequestWithMonitoring (reply at) = Inl message"
  shows "makeRequest p (at # rest) probes False a = (Returned Null, p1, rest, probes1)"
  unfolding makeRequest_Cons[OF sel] by (simp add: at)

subsection \<open>The slot check and its threshold\<close>

text \<open>
  Claim C8. When \<^verbatim>\<open>unhealthySlotDiffPlays\<close> is \<^verbatim>\<open>null\<close> or \<^verbatim>\<open>undefined\<close>,
  \<^verbatim>\<open>_getPlaysSlotsBehind\<close> returns \<^verbatim>\<open>null\<close> for every response, whatever the slot lag,
  so the slot check never rejects a response.
\<close>

theorem getPlaysSlotsBehind_disabled_by_null:
  "unhealthySlotDiffPlays p = None \<Longrightarrow> getPlaysSlotsBehind p parsedResponse = None"
  by (simp add: getPlaysSlotsBehind_def)

text \<open>The constructor without a slot threshold, and a response 700 slots behind.\<close>

theorem getPlaysSlotsBehind_disabled_by_null_witness:
  "unhealthySlotDiffPlays exampleProvider = None
   \<and> getPlaysSlotsBehind exampleProvider (Some laggingResponse) = None"
proof -
  have h: "unhealthySlotDiffPlays exampleProvider = None"
    by (simp add: sample_defs)
  from h getPlaysSlotsBehind_disabled_by_null [OF h, of "Some laggingResponse"]
  show ?thesis by (rule conjI)
qed

text \<open>
  Claim C10. When \<^verbatim>\<open>unhealthySlotDiffPlays\<close> is the number 0, the guard
  \<^verbatim>\<open>!this.unhealthySlotDiffPlays\<close> holds as well: \<^verbatim>\<open>_getPlaysSlotsBehind\<close> returns
  \<^verbatim>\<open>null\<close> for every response, also when the slot lag is positive.
\<close>

theorem getPlaysSlotsBehind_disabled_by_zero:
  "unhealthySlotDiffPlays p = Some 0 \<Longrightarrow> getPlaysSlotsBehind p parsedResponse = None"
  by (simp add: getPlaysSlotsBehind_def)

text \<open>A threshold of 0 and a response 700 slots behind.\<close>

theorem getPlaysSlotsBehind_disabled_by_zero_witness:
  "unhealthySlotDiffPlays (exampleProvider\<lparr>unhealthySlotDiffPlays := Some 0\<rparr>) = Some 0
   \<and> js_minus (toNumber (latest_chain_slot_plays laggingResponse))
        (toNumber (latest_indexed_slot_plays laggingResponse)) = Fin 700
   \<and> getPlaysSlotsBehind (exampleProvider\<lparr>unhealthySlotDiffPlays := Some 0\<rparr>)
        (Some laggingResponse) = None"
proof -
  have h: "unhealthySlotDiffPlays (exampleProvider\<lparr>unhealthySlotDiffPlays := Some 0\<rparr>) = Some 0"
    by simp
  have lag: "js_minus (toNumber (latest_chain_slot_plays laggingResponse))
        (toNumber (latest_indexed_slot_plays laggingResponse)) = Fin 700"
    by (simp add: laggingResponse_def)
  from h lag getPlaysSlotsBehind_disabled_by_zero [OF h, of "Some laggingResponse"]
  show ?thesis by simp
qed

subsection \<open>The block check on a response without the block fields\<close>

text \<open>
  Claim C3 says that a response whose \<^verbatim>\<open>latest_indexed_block\<close> or
  \<^verbatim>\<open>latest_chain_block\<close> is missing is classified as stale. The code does not do so:
  reading the missing fields gives \<^verbatim>\<open>undefined\<close>, the difference is \<^verbatim>\<open>NaN\<close>, the
  comparison with the threshold is false and \<^verbatim>\<open>_getBlocksBehind\<close> returns \<^verbatim>\<open>null\<close>;
  outside regressed mode \<^verbatim>\<open>_makeRequest\<close> then returns the data of that response.
\<close>

theorem getBlocksBehind_missing_fields_healthy:
  "getBlocksBehind exampleProvider (Some missingFieldsResponse) = None
   \<and> makeRequest exampleProvider
        [\<lparr> reply = Resolved (Some missingFieldsResponse), isInRegressedMode = False \<rparr>] []
        True 0
      = (Returned (Data ''payload''), exampleProvider, [], [])"
  by (simp add: sample_defs call_defs makeRequest.simps)

subsection \<open>Regressed mode\<close>

text \<open>
  Claim C4. A response received while \<^verbatim>\<open>ethContracts.isInRegressedMode()\<close> is true is
  returned: \<^verbatim>\<open>_makeRequest\<close> returns its data and resets the not-found counter, whatever
  the block lag and the slot lag of the response.
\<close>

theorem makeRequest_regressed_mode_returns_data:
  "makeRequest_select p probes a = (Returned a1, p1, probes1) \<Longrightarrow>
   reply at = Resolved (Some r) \<Longrightarrow> isInRegressedMode at \<Longrightarrow>
   makeRequest p (at # rest) probes retry a
     = (Returned (Data (data r)), p1\<lparr>request404Count := 0\<rparr>, rest, probes1)"
  by (simp add: makeRequest_resolved)

text \<open>
  A provider with block threshold 15 and slot threshold 10, and a response 500 blocks
  and 700 slots behind.
\<close>

theorem makeRequest_regressed_mode_returns_data_witness:
  "truthy_num (getBlocksBehind slotProvider (Some laggingResponse))
   \<and> truthy_num (getPlaysSlotsBehind slotProvider (Some laggingResponse))
   \<and> makeRequest slotProvider
        [\<lparr> reply = Resolved (Some laggingResponse), isInRegressedMode = True \<rparr>] [] True 0
      = (Returned (Data ''payload''), slotProvider, [], [])"
proof -
  let ?at = "\<lparr> reply = Resolved (Some laggingResponse), isInRegressedMode = True \<rparr>"
  have h1: "makeRequest_select slotProvider [] 0 = (Returned 0, slotProvider, [])"
    by (simp add: sample_defs call_defs)
  have h2: "reply ?at = Resolved (Some laggingResponse)" by simp
  have h3: "isInRegressedMode ?at" by simp
  have stale: "truthy_num (getBlocksBehind slotProvider (Some laggingResponse))"
    "truthy_num (getPlaysSlotsBehind slotProvider (Some laggingResponse))"
    by (simp_all add: sample_defs call_defs)
  have same: "slotProvider\<lparr>request404Count := 0\<rparr> = slotProvider"
    "data laggingResponse = ''payload''"
    by (simp_all add: sample_defs)
  from makeRequest_regressed_mode_returns_data [OF h1 h2 h3, of "[]" True] stale same
  show ?thesis by simp
qed

subsection \<open>The reset of the retry counter\<close>

text \<open>
  Claim C6. In \<^verbatim>\<open>_makeRequest\<close>, when the endpoint that the selection step returns
  differs from \<^verbatim>\<open>this.discoveryProviderEndpoint\<close>, the new endpoint is stored and
  \<^verbatim>\<open>attemptedRetries\<close> is 0 when the request is issued; when it is the same endpoint,
  \<^verbatim>\<open>attemptedRetries\<close> keeps its value. The request is issued on the endpoint returned
  (the call waits for its reply with that endpoint stored), and the value of the counter
  shows in the next attempt, which a failed or stale reply starts with the counter plus 1.
\<close>

theorem makeRequest_resets_retries:
  assumes "getHealthyDiscoveryProviderEndpoint p probes a = (Returned e, p1, probes1)"
  shows "makeRequest p [] probes retry a
           = (Pending, p1\<lparr>discoveryProviderEndpoint := Some e\<rparr>, [], probes1)
       \<and> (retriedAttempt p at \<longrightarrow>
            makeRequest p (at # rest) probes True a
              = makeRequest (p1\<lparr>discoveryProviderEndpoint := Some e\<rparr>) rest probes1 True
                  ((if discoveryProviderEndpoint p = Some e then a else 0) + 1))"
proof -
  let ?q = "p1\<lparr>discoveryProviderEndpoint := Some e\<rparr>"
  note sel = makeRequest_select_Returned[OF assms]
  from getHealthyDiscoveryProviderEndpoint_preserves[OF assms]
  have same: "retriedAttempt ?q at = retriedAttempt p at"
    by (intro retriedAttempt_cong) simp_all
  have "makeRequest p [] probes retry a = (Pending, ?q, [], probes1)"
    by (rule makeRequest_Nil[OF sel])
  moreover have "makeRequest p (at # rest) probes True a
       = makeRequest ?q rest probes1 True
           ((if discoveryProviderEndpoint p = Some e then a else 0) + 1)"
    if "retriedAttempt p at"
    using makeRequest_retried[OF sel, of at rest True] that same by simp
  ultimately show ?thesis by blast
qed

text \<open>
  A call entered with six retries behind it on the first node: the selector finds a
  second node, the counter restarts, and the five failing requests that follow all go to
  the second node, so the second probe round is never used. A call entered with three
  retries keeps the node, and a stale response leads to the attempt with four.
\<close>

theorem makeRequest_resets_retries_witness:
  "makeRequest exampleProvider (replicate 5 failedAttempt)
     [probeFinds (Some ''https://dn2''), probeFinds (Some ''https://dn3'')] True 6
     = (Pending,
        exampleProvider\<lparr>serviceSelector :=
                           \<lparr> currentEndpoint = Some ''https://dn2'',
                             unhealthySet = {Some ''https://dn1''} \<rparr>,
                         discoveryProviderEndpoint := Some ''https://dn2''\<rparr>,
        [], [probeFinds (Some ''https://dn3'')])
   \<and> makeRequest exampleProvider [staleAttempt] [] True 3
     = makeRequest exampleProvider [] [] True 4"
proof -
  let ?p2 = "exampleProvider\<lparr>serviceSelector :=
               \<lparr> currentEndpoint = Some ''https://dn2'',
                 unhealthySet = {Some ''https://dn1''} \<rparr>\<rparr>"
  let ?q = "?p2\<lparr>discoveryProviderEndpoint := Some ''https://dn2''\<rparr>"
  have h: "getHealthyDiscoveryProviderEndpoint exampleProvider
             [probeFinds (Some ''https://dn2''), probeFinds (Some ''https://dn3'')] 6
      = (Returned ''https://dn2'', ?p2, [probeFinds (Some ''https://dn3'')])"
    by (simp add: sample_defs call_defs)
  have f: "retriedAttempt exampleProvider failedAttempt"
    by (simp add: retriedAttempt_def sample_defs call_defs)
  have d: "discoveryProviderEndpoint exampleProvider \<noteq> Some ''https://dn2''"
    by (simp add: sample_defs)
  from makeRequest_resets_retries [OF h, of True failedAttempt "replicate 4 failedAttempt"] f d
  have step: "makeRequest exampleProvider (failedAttempt # replicate 4 failedAttempt)
                [probeFinds (Some ''https://dn2''), probeFinds (Some ''https://dn3'')] True 6
              = makeRequest ?q (replicate 4 failedAttempt)
                  [probeFinds (Some ''https://dn3'')] True (0 + 1)"
    by simp
  have val: "makeRequest ?q (replicate 4 failedAttempt) [probeFinds (Some ''https://dn3'')]
               True (0 + 1)
             = (Pending, ?q, [], [probeFinds (Some ''https://dn3'')])"
    by (simp add: sample_defs call_defs makeRequest.simps numeral_eq_Suc)
  have unf: "replicate 5 failedAttempt = failedAttempt # replicate 4 failedAttempt"
    by (simp add: numeral_eq_Suc)
  have a: "makeRequest exampleProvider (replicate 5 failedAttempt)
             [probeFinds (Some ''https://dn2''), probeFinds (Some ''https://dn3'')] True 6
           = (Pending, ?q, [], [probeFinds (Some ''https://dn3'')])"
    unfolding unf by (rule trans[OF step val])
  have k: "getHealthyDiscoveryProviderEndpoint exampleProvider [] 3
      = (Returned ''https://dn1'', exampleProvider, [])"
    by (simp add: sample_defs call_defs)
  have s: "retriedAttempt exampleProvider staleAttempt"
    by (simp add: retriedAttempt_def sample_defs call_defs)
  have same: "discoveryProviderEndpoint exampleProvider = Some ''https://dn1''"
    "exampleProvider\<lparr>discoveryProviderEndpoint := Some ''https://dn1''\<rparr> = exampleProvider"
    by (simp_all add: sample_defs)
  from makeRequest_resets_retries [OF k, of True staleAttempt "[]"] s same
  have b: "makeRequest exampleProvider [staleAttempt] [] True 3
           = makeRequest exampleProvider [] [] True 4"
    by simp
  from a b show ?thesis by simp
qed

subsection \<open>The endpoint check\<close>

text \<open>
  Claim C5. When \<^verbatim>\<open>attemptedRetries\<close> exceeds \<^verbatim>\<open>selectionRequestRetries\<close>, the current
  endpoint is added to the selector's unhealthy set and the cached selection is cleared
  before \<^verbatim>\<open>select()\<close> answers (the state while the probe round is awaited shows both),
  and the answer is the winner of a fresh probe round. Otherwise nothing is marked: the
  provider is unchanged and the current endpoint is returned (the check at the end
  throws when there is none).
\<close>

theorem getHealthyDiscoveryProviderEndpoint_reselects:
  "(selectionRequestRetries p < a \<longrightarrow>
      getHealthyDiscoveryProviderEndpoint p [] a
        = (Pending,
           p\<lparr>serviceSelector := (serviceSelector p)
               \<lparr>currentEndpoint := None,
                unhealthySet :=
                  insert (discoveryProviderEndpoint p) (unhealthySet (serviceSelector p))\<rparr>\<rparr>,
           [])
      \<and> getHealthyDiscoveryProviderEndpoint p (pr # probes) a
        = (throwIfNone (winner pr),
           p\<lparr>serviceSelector := (serviceSelector p)
               \<lparr>currentEndpoint := winner pr,
                unhealthySet :=
                  insert (discoveryProviderEndpoint p) (unhealthySet (serviceSelector p))\<rparr>\<rparr>,
           probes))
   \<and> (a \<le> selectionRequestRetries p \<longrightarrow>
        getHealthyDiscoveryProviderEndpoint p probes a
          = (throwIfNone (discoveryProviderEndpoint p), p, probes))"
  by (simp add: getHealthyDiscoveryProviderEndpoint_def select_def clearCached_def
        addUnhealthy_def)

text \<open>Six retries force a new selection; five retries keep the endpoint.\<close>

theorem getHealthyDiscoveryProviderEndpoint_reselects_witness:
  "getHealthyDiscoveryProviderEndpoint exampleProvider [probeFinds (Some ''https://dn2'')] 6
     = (Returned ''https://dn2'',
        exampleProvider\<lparr>serviceSelector :=
          \<lparr> currentEndpoint = Some ''https://dn2'', unhealthySet = {Some ''https://dn1''} \<rparr>\<rparr>,
        [])
   \<and> getHealthyDiscoveryProviderEndpoint exampleProvider [probeFinds (Some ''https://dn2'')] 5
     = (Returned ''https://dn1'', exampleProvider, [probeFinds (Some ''https://dn2'')])"
proof -
  have h1: "selectionRequestRetries exampleProvider < 6"
    and h2: "5 \<le> selectionRequestRetries exampleProvider"
    by (simp_all add: sample_defs)
  have v: "throwIfNone (winner (probeFinds (Some ''https://dn2''))) = Returned ''https://dn2''"
    "throwIfNone (discoveryProviderEndpoint exampleProvider) = Returned ''https://dn1''"
    by (simp_all add: sample_defs throwIfNone_def)
  have s: "(serviceSelector exampleProvider)
             \<lparr>currentEndpoint := winner (probeFinds (Some ''https://dn2'')),
              unhealthySet := insert (discoveryProviderEndpoint exampleProvider)
                                (unhealthySet (serviceSelector exampleProvider))\<rparr>
           = \<lparr> currentEndpoint = Some ''https://dn2'', unhealthySet = {Some ''https://dn1''} \<rparr>"
    by (simp add: sample_defs)
  from getHealthyDiscoveryProviderEndpoint_reselects
         [of exampleProvider 6 "probeFinds (Some ''https://dn2'')" "[]"] h1
  have a: "getHealthyDiscoveryProviderEndpoint exampleProvider [probeFinds (Some ''https://dn2'')] 6
     = (Returned ''https://dn2'',
        exampleProvider\<lparr>serviceSelector :=
          \<lparr> currentEndpoint = Some ''https://dn2'', unhealthySet = {Some ''https://dn1''} \<rparr>\<rparr>,
        [])"
    by (simp only: v s)
  from getHealthyDiscoveryProviderEndpoint_reselects
         [of exampleProvider 5 undefined "[probeFinds (Some ''https://dn2'')]"] h2
  have b: "getHealthyDiscoveryProviderEndpoint exampleProvider [probeFinds (Some ''https://dn2'')] 5
     = (Returned ''https://dn1'', exampleProvider, [probeFinds (Some ''https://dn2'')])"
    by (simp only: v)
  from a b show ?thesis by (rule conjI)
qed

subsection \<open>Selection failure and thrown errors\<close>

lemma makeRequest_never_throws:
  "\<forall>at\<in>set attempts. reply at \<noteq> Resolved None \<Longrightarrow>
   fst (makeRequest p attempts probes retry a) \<noteq> Threw e"
proof (induction attempts arbitrary: p probes a)
  case Nil
  show ?case
    by (subst makeRequest.simps) (simp split: prod.splits async.splits)
next
  case (Cons at rest)
  from Cons.prems have r: "reply at \<noteq> Resolved None"
    and ih: "\<And>p probes a. fst (makeRequest p rest probes retry a) \<noteq> Threw e"
    using Cons.IH by auto
  show ?case
    using r ih
    by (subst makeRequest.simps)
       (auto simp: Let_def performRequestWithMonitoring_def
          split: prod.splits async.splits sum.splits axios_result.splits option.splits
            if_splits)
qed

text \<open>
  Claim C2 says that a selection that yields no endpoint ends the request with a thrown
  error. It does not: \<^verbatim>\<open>getHealthyDiscoveryProviderEndpoint\<close> throws, but the first
  \<^verbatim>\<open>try\<close> block of \<^verbatim>\<open>_makeRequest\<close> catches the error and returns \<^verbatim>\<open>undefined\<close>. Here
  six requests fail, the seventh call asks the selector, which finds no node, and the
  request resolves to \<^verbatim>\<open>undefined\<close>.
\<close>

theorem makeRequest_selection_failure_counterexample:
  "fst (getHealthyDiscoveryProviderEndpoint exampleProvider [probeFinds None] 6)
     = Threw AllUnhealthy
   \<and> makeRequest exampleProvider (replicate 6 failedAttempt) [probeFinds None] True 0
     = (Returned Undefined,
        exampleProvider\<lparr>serviceSelector :=
          \<lparr> currentEndpoint = None, unhealthySet = {Some ''https://dn1''} \<rparr>\<rparr>,
        [], [])"
  by (simp add: sample_defs call_defs makeRequest.simps numeral_eq_Suc)

text \<open>
  A retrying call whose attempts all end in a request error or a stale response: when the
  retries on the endpoint are used up it asks the selector, and when the selector finds
  no node the call resolves to \<^verbatim>\<open>undefined\<close>.
\<close>

lemma retries_exhausted:
  "\<lbrakk> truthy_str (discoveryProviderEndpoint p); \<forall>at\<in>set fs. retriedAttempt p at;
     a + int (length fs) = selectionRequestRetries p + 1; \<not> truthy_str (winner pr) \<rbrakk> \<Longrightarrow>
   makeRequest p (fs @ rest) (pr # prest) True a
     = (Returned Undefined,
        p\<lparr>serviceSelector := (serviceSelector p)
            \<lparr>currentEndpoint := winner pr,
             unhealthySet :=
               insert (discoveryProviderEndpoint p) (unhealthySet (serviceSelector p))\<rparr>\<rparr>,
        rest, prest)"
proof (induction fs arbitrary: a)
  case Nil
  then have gt: "selectionRequestRetries p < a" by simp
  from Nil.prems(4) have thr: "throwIfNone (winner pr) = Threw AllUnhealthy"
    by (cases "winner pr") (auto simp: throwIfNone_def)
  have "getHealthyDiscoveryProviderEndpoint p (pr # prest) a
          = (Threw AllUnhealthy,
             p\<lparr>serviceSelector := (serviceSelector p)
                 \<lparr>currentEndpoint := winner pr,
                  unhealthySet :=
                    insert (discoveryProviderEndpoint p) (unhealthySet (serviceSelector p))\<rparr>\<rparr>,
             prest)"
    using gt thr
    by (simp add: getHealthyDiscoveryProviderEndpoint_def select_def clearCached_def
          addUnhealthy_def)
  from makeRequest_selection_failed[OF this] show ?case by simp
next
  case (Cons f fs)
  from Cons.prems have le: "a \<le> selectionRequestRetries p"
    and f: "retriedAttempt p f" by auto
  note sel = select_kept[OF le Cons.prems(1), of "pr # prest"]
  have "makeRequest p (f # fs @ rest) (pr # prest) True a
          = makeRequest p (fs @ rest) (pr # prest) True (a + 1)"
    using makeRequest_retried[OF sel f, of "fs @ rest" True] by simp
  also have "\<dots> = (Returned Undefined,
        p\<lparr>serviceSelector := (serviceSelector p)
            \<lparr>currentEndpoint := winner pr,
             unhealthySet :=
               insert (discoveryProviderEndpoint p) (unhealthySet (serviceSelector p))\<rparr>\<rparr>,
        rest, prest)"
    using Cons.prems by (intro Cons.IH) auto
  finally show ?case by simp
qed

text \<open>
  Claim C2, amended. When \<^verbatim>\<open>getHealthyDiscoveryProviderEndpoint\<close> throws because no
  endpoint is available, \<^verbatim>\<open>_makeRequest\<close> catches the error and resolves to
  \<^verbatim>\<open>undefined\<close> without issuing a request. The other failure conditions do not throw
  either. Without retry, a request error (the not-found error included) or a stale
  response resolves to \<^verbatim>\<open>null\<close> at once. With retry, a request error or stale response
  is answered by another attempt, and a call whose attempts keep failing in this way
  resolves to \<^verbatim>\<open>undefined\<close>, not to \<^verbatim>\<open>null\<close>, when the retries on the endpoint are
  used up and the selector finds no node. As long as every parsed response is an object,
  no run of \<^verbatim>\<open>_makeRequest\<close> ends in a thrown error.
\<close>

theorem makeRequest_resolves_without_throwing:
  "(getHealthyDiscoveryProviderEndpoint p probes a = (Threw e, p1, probes1) \<longrightarrow>
      makeRequest p attempts probes retry a = (Returned Undefined, p1, attempts, probes1))
   \<and> (makeRequest_select p probes a = (Returned a1, p1, probes1)
        \<and> (performRequestWithMonitoring (reply at) = Inl message \<or> retriedAttempt p1 at) \<longrightarrow>
        makeRequest p (at # rest) probes False a = (Returned Null, p1, rest, probes1))
   \<and> (truthy_str (discoveryProviderEndpoint p) \<and> (\<forall>at\<in>set fs. retriedAttempt p at)
        \<and> a + int (length fs) = selectionRequestRetries p + 1
        \<and> \<not> truthy_str (winner pr) \<longrightarrow>
        makeRequest p (fs @ rest) (pr # prest) True a
          = (Returned Undefined,
             p\<lparr>serviceSelector := (serviceSelector p)
                 \<lparr>currentEndpoint := winner pr,
                  unhealthySet :=
                    insert (discoveryProviderEndpoint p) (unhealthySet (serviceSelector p))\<rparr>\<rparr>,
             rest, prest))
   \<and> ((\<forall>at\<in>set attempts. reply at \<noteq> Resolved None) \<longrightarrow>
        fst (makeRequest p attempts probes retry a) \<noteq> Threw e')"
proof (intro conjI impI)
  assume "getHealthyDiscoveryProviderEndpoint p probes a = (Threw e, p1, probes1)"
  then show "makeRequest p attempts probes retry a = (Returned Undefined, p1, attempts, probes1)"
    by (rule makeRequest_selection_failed)
next
  assume h: "makeRequest_select p probes a = (Returned a1, p1, probes1)
        \<and> (performRequestWithMonitoring (reply at) = Inl message \<or> retriedAttempt p1 at)"
  then have sel: "makeRequest_select p probes a = (Returned a1, p1, probes1)" by simp
  from h show "makeRequest p (at # rest) probes False a = (Returned Null, p1, rest, probes1)"
    using makeRequest_no_retry_error[OF sel, of at message rest]
      makeRequest_retried[OF sel, of at rest False]
    by auto
next
  assume "truthy_str (discoveryProviderEndpoint p) \<and> (\<forall>at\<in>set fs. retriedAttempt p at)
        \<and> a + int (length fs) = selectionRequestRetries p + 1
        \<and> \<not> truthy_str (winner pr)"
  then show "makeRequest p (fs @ rest) (pr # prest) True a
          = (Returned Undefined,
             p\<lparr>serviceSelector := (serviceSelector p)
                 \<lparr>currentEndpoint := winner pr,
                  unhealthySet :=
                    insert (discoveryProviderEndpoint p) (unhealthySet (serviceSelector p))\<rparr>\<rparr>,
             rest, prest)"
    by (intro retries_exhausted) auto
next
  assume "\<forall>at\<in>set attempts. reply at \<noteq> Resolved None"
  then show "fst (makeRequest p attempts probes retry a) \<noteq> Threw e'"
    by (rule makeRequest_never_throws)
qed

text \<open>
  A provider with both thresholds. Entered after six retries with a selector that finds
  no node, the call resolves to \<^verbatim>\<open>undefined\<close> and leaves the reply unread; without retry
  a not-found reply and a stale response each give \<^verbatim>\<open>null\<close>; with retry, three request
  errors and three stale responses use up the retries, the selector finds no node and the
  call resolves to \<^verbatim>\<open>undefined\<close>.
\<close>

theorem makeRequest_resolves_without_throwing_witness:
  "makeRequest slotProvider [failedAttempt] [probeFinds None] True 6
     = (Returned Undefined,
        slotProvider\<lparr>serviceSelector :=
          \<lparr> currentEndpoint = None, unhealthySet = {Some ''https://dn1''} \<rparr>\<rparr>,
        [failedAttempt], [])
   \<and> makeRequest slotProvider [notFoundAttempt] [] False 0
     = (Returned Null, slotProvider, [], [])
   \<and> makeRequest slotProvider [staleAttempt] [] False 0
     = (Returned Null, slotProvider, [], [])
   \<and> makeRequest slotProvider
        [failedAttempt, staleAttempt, failedAttempt, staleAttempt, failedAttempt, staleAttempt,
         failedAttempt]
        [probeFinds None] True 0
     = (Returned Undefined,
        slotProvider\<lparr>serviceSelector :=
          \<lparr> currentEndpoint = None, unhealthySet = {Some ''https://dn1''} \<rparr>\<rparr>,
        [failedAttempt], [])
   \<and> fst (makeRequest slotProvider [failedAttempt, staleAttempt] [] False 0)
     \<noteq> Threw TypeError"
proof -
  let ?gone = "slotProvider\<lparr>serviceSelector :=
                 \<lparr> currentEndpoint = None, unhealthySet = {Some ''https://dn1''} \<rparr>\<rparr>"
  let ?fs = "[failedAttempt, staleAttempt, failedAttempt, staleAttempt, failedAttempt,
              staleAttempt]"
  have h1: "getHealthyDiscoveryProviderEndpoint slotProvider [probeFinds None] 6
              = (Threw AllUnhealthy, ?gone, [])"
    by (simp add: sample_defs call_defs)
  have sel: "makeRequest_select slotProvider [] 0 = (Returned 0, slotProvider, [])"
    by (simp add: sample_defs call_defs)
  have nf: "performRequestWithMonitoring (reply notFoundAttempt) = Inl (Some ''404'')"
    by (simp add: sample_defs call_defs)
  have st: "retriedAttempt slotProvider staleAttempt"
    and fl: "retriedAttempt slotProvider failedAttempt"
    by (simp_all add: retriedAttempt_def sample_defs call_defs)
  have h3: "truthy_str (discoveryProviderEndpoint slotProvider)"
    "\<forall>at\<in>set ?fs. retriedAttempt slotProvider at"
    "0 + int (length ?fs) = selectionRequestRetries slotProvider + 1"
    "\<not> truthy_str (winner (probeFinds None))"
    using st fl by (simp_all add: sample_defs)
  have g: "slotProvider\<lparr>serviceSelector := (serviceSelector slotProvider)
              \<lparr>currentEndpoint := winner (probeFinds None),
               unhealthySet := insert (discoveryProviderEndpoint slotProvider)
                                 (unhealthySet (serviceSelector slotProvider))\<rparr>\<rparr>
           = ?gone"
    by (simp add: sample_defs)
  have h4: "\<forall>at\<in>set [failedAttempt, staleAttempt]. reply at \<noteq> Resolved None"
    by (simp add: sample_defs)
  from makeRequest_resolves_without_throwing
         [where p = slotProvider and probes = "[probeFinds None]" and a = 6
            and e = AllUnhealthy and ?p1.0 = ?gone and ?probes1.0 = "[]"
            and attempts = "[failedAttempt]" and retry = True]
       h1
  have a: "makeRequest slotProvider [failedAttempt] [probeFinds None] True 6
             = (Returned Undefined, ?gone, [failedAttempt], [])"
    by blast
  from makeRequest_resolves_without_throwing
         [where p = slotProvider and probes = "[]" and a = 0 and ?a1.0 = 0
            and ?p1.0 = slotProvider and ?probes1.0 = "[]" and at = notFoundAttempt
            and message = "Some ''404''" and rest = "[]"]
       sel nf
  have b: "makeRequest slotProvider [notFoundAttempt] [] False 0
             = (Returned Null, slotProvider, [], [])"
    by blast
  from makeRequest_resolves_without_throwing
         [where p = slotProvider and probes = "[]" and a = 0 and ?a1.0 = 0
            and ?p1.0 = slotProvider and ?probes1.0 = "[]" and at = staleAttempt
            and rest = "[]"]
       sel st
  have c: "makeRequest slotProvider [staleAttempt] [] False 0
             = (Returned Null, slotProvider, [], [])"
    by blast
  from makeRequest_resolves_without_throwing
         [where p = slotProvider and a = 0 and fs = ?fs and pr = "probeFinds None"
            and rest = "[failedAttempt]" and prest = "[]"]
       h3
  have "makeRequest slotProvider (?fs @ [failedAttempt]) [probeFinds None] True 0
          = (Returned Undefined,
             slotProvider\<lparr>serviceSelector := (serviceSelector slotProvider)
                \<lparr>currentEndpoint := winner (probeFinds None),
                 unhealthySet := insert (discoveryProviderEndpoint slotProvider)
                                   (unhealthySet (serviceSelector slotProvider))\<rparr>\<rparr>,
             [failedAttempt], [])"
    by blast
  then have d: "makeRequest slotProvider (?fs @ [failedAttempt]) [probeFinds None] True 0
          = (Returned Undefined, ?gone, [failedAttempt], [])"
    by (simp only: g)
  from makeRequest_resolves_without_throwing
         [where p = slotProvider and probes = "[]" and a = 0
            and attempts = "[failedAttempt, staleAttempt]" and retry = False
            and e' = TypeError]
       h4
  have e: "fst (makeRequest slotProvider [failedAttempt, staleAttempt] [] False 0)
             \<noteq> Threw TypeError"
    by blast
  from a b c d e show ?thesis by simp
qed

subsection \<open>The not-found counter across requests\<close>

text \<open>
  Claim C7 says that every top-level request starts with \<^verbatim>\<open>request404Count\<close> at zero.
  The counter is a field of the provider that is reset when a request succeeds and when it
  gives up after the last not-found reply, but not on the exit through a failed
  selection. First request: one not-found reply, then the selector finds no node; the
  request resolves to \<^verbatim>\<open>undefined\<close> and leaves the counter at 1. Second request on that
  provider: its first not-found reply already ends it with \<^verbatim>\<open>null\<close>, without asking
  the selector; on a provider with the counter at 0 the same reply leads to a reselection.
\<close>

theorem request404Count_carried_over:
  "makeRequest exampleProvider [notFoundAttempt] [probeFinds None] True 0
     = (Returned Undefined,
        exampleProvider\<lparr>serviceSelector :=
                           \<lparr> currentEndpoint = None, unhealthySet = {Some ''https://dn1''} \<rparr>,
                         request404Count := 1\<rparr>,
        [], [])
   \<and> makeRequest
        (exampleProvider\<lparr>serviceSelector :=
                           \<lparr> currentEndpoint = None, unhealthySet = {Some ''https://dn1''} \<rparr>,
                         request404Count := 1\<rparr>)
        [notFoundAttempt] [probeFinds (Some ''https://dn2'')] True 0
     = (Returned Null,
        exampleProvider\<lparr>serviceSelector :=
                           \<lparr> currentEndpoint = None, unhealthySet = {Some ''https://dn1''} \<rparr>\<rparr>,
        [], [probeFinds (Some ''https://dn2'')])
   \<and> makeRequest exampleProvider [notFoundAttempt] [probeFinds (Some ''https://dn2'')] True 0
     = (Pending,
        exampleProvider\<lparr>serviceSelector :=
                           \<lparr> currentEndpoint = Some ''https://dn2'',
                             unhealthySet = {Some ''https://dn1''} \<rparr>,
                         request404Count := 1,
                         discoveryProviderEndpoint := Some ''https://dn2''\<rparr>,
        [], [])"
  by (simp add: sample_defs call_defs makeRequest.simps)

subsection \<open>The not-found budget\<close>

lemma select_forced:
  "selectionRequestRetries p < a \<Longrightarrow> truthy_str (winner pr) \<Longrightarrow>
   \<exists>a1 p1. makeRequest_select p (pr # probes) a = (Returned a1, p1, probes)
     \<and> request404Count p1 = request404Count p
     \<and> maxRequestsForTrue404 p1 = maxRequestsForTrue404 p
     \<and> selectionRequestRetries p1 = selectionRequestRetries p"
  by (cases "winner pr")
     (auto simp: makeRequest_select_def getHealthyDiscoveryProviderEndpoint_def throwIfNone_def
        select_def clearCached_def addUnhealthy_def)

text \<open>
  A chain of forced reselections: every reply is a not-found and every probe round finds
  a node. When the replies fill the budget the last one ends the call with \<^verbatim>\<open>null\<close>;
  when they do not, the call has reselected once more and waits for the next reply.
\<close>

lemma forced_chain_null:
  "\<lbrakk> \<forall>at\<in>set ats. notFound at; length prs = length ats;
     \<forall>pr\<in>set prs. truthy_str (winner pr); ats \<noteq> [];
     request404Count p + int (length ats) = maxRequestsForTrue404 p \<rbrakk> \<Longrightarrow>
   \<exists>p'. makeRequest p (ats @ rest) (prs @ prest) True (selectionRequestRetries p + 1)
           = (Returned Null, p', rest, prest) \<and> request404Count p' = 0"
proof (induction ats arbitrary: p prs)
  case Nil
  then show ?case by simp
next
  case (Cons at ats)
  then obtain pr prs' where prs: "prs = pr # prs'" by (cases prs) auto
  with Cons.prems have tr: "truthy_str (winner pr)" and nf: "notFound at" by auto
  from select_forced[OF _ tr, of p "selectionRequestRetries p + 1" "prs' @ prest"]
  obtain a1 p1 where
    sel: "makeRequest_select p (pr # prs' @ prest) (selectionRequestRetries p + 1)
            = (Returned a1, p1, prs' @ prest)"
    and c: "request404Count p1 = request404Count p"
    and m: "maxRequestsForTrue404 p1 = maxRequestsForTrue404 p"
    and r: "selectionRequestRetries p1 = selectionRequestRetries p"
    by auto
  note step = makeRequest_notFound[OF sel nf, of "ats @ rest"]
  show ?case
  proof (cases "ats = []")
    case True
    with Cons.prems prs c m have "\<not> request404Count p1 + 1 < maxRequestsForTrue404 p1"
      by simp
    with step True prs Cons.prems show ?thesis by simp
  next
    case False
    let ?p2 = "p1\<lparr>request404Count := request404Count p1 + 1\<rparr>"
    from False Cons.prems c m have lt: "request404Count p1 + 1 < maxRequestsForTrue404 p1"
      by (cases ats) auto
    have "\<exists>p'. makeRequest ?p2 (ats @ rest) (prs' @ prest) True
                 (selectionRequestRetries ?p2 + 1)
           = (Returned Null, p', rest, prest) \<and> request404Count p' = 0"
      using Cons.prems prs False c m by (intro Cons.IH) auto
    with step lt prs r show ?thesis by simp
  qed
qed

lemma forced_chain_pending:
  "\<lbrakk> \<forall>at\<in>set ats. notFound at; length prs = Suc (length ats);
     \<forall>pr\<in>set prs. truthy_str (winner pr);
     request404Count p + int (length ats) < maxRequestsForTrue404 p \<rbrakk> \<Longrightarrow>
   \<exists>p'. makeRequest p ats (prs @ prest) True (selectionRequestRetries p + 1)
           = (Pending, p', [], prest)
         \<and> request404Count p' = request404Count p + int (length ats)"
proof (induction ats arbitrary: p prs)
  case Nil
  then obtain pr where prs: "prs = [pr]" by (cases prs) auto
  with Nil.prems have tr: "truthy_str (winner pr)" by auto
  from select_forced[OF _ tr, of p "selectionRequestRetries p + 1" "prest"]
  obtain a1 p1 where
    sel: "makeRequest_select p (pr # prest) (selectionRequestRetries p + 1)
            = (Returned a1, p1, prest)"
    and c: "request404Count p1 = request404Count p"
    by auto
  from makeRequest_Nil[OF sel] prs c show ?case by simp
next
  case (Cons at ats)
  then obtain pr prs' where prs: "prs = pr # prs'" by (cases prs) auto
  with Cons.prems have tr: "truthy_str (winner pr)" and nf: "notFound at" by auto
  from select_forced[OF _ tr, of p "selectionRequestRetries p + 1" "prs' @ prest"]
  obtain a1 p1 where
    sel: "makeRequest_select p (pr # prs' @ prest) (selectionRequestRetries p + 1)
            = (Returned a1, p1, prs' @ prest)"
    and c: "request404Count p1 = request404Count p"
    and m: "maxRequestsForTrue404 p1 = maxRequestsForTrue404 p"
    and r: "selectionRequestRetries p1 = selectionRequestRetries p"
    by auto
  note step = makeRequest_notFound[OF sel nf, of ats]
  let ?p2 = "p1\<lparr>request404Count := request404Count p1 + 1\<rparr>"
  from Cons.prems c m have lt: "request404Count p1 + 1 < maxRequestsForTrue404 p1" by auto
  have "\<exists>p'. makeRequest ?p2 ats (prs' @ prest) True (selectionRequestRetries ?p2 + 1)
           = (Pending, p', [], prest)
         \<and> request404Count p' = request404Count ?p2 + int (length ats)"
    using Cons.prems prs c m by (intro Cons.IH) auto
  with step lt prs r c show ?case by (simp add: add.assoc)
qed

text \<open>
  The counter stays below the budget: from a provider whose counter is below the budget,
  every call, whatever the world answers, ends or waits with the counter below the
  budget again.
\<close>

lemma makeRequest_select_preserves:
  "makeRequest_select p probes a = (r, p1, probes1) \<Longrightarrow>
   request404Count p1 = request404Count p
   \<and> maxRequestsForTrue404 p1 = maxRequestsForTrue404 p
   \<and> selectionRequestRetries p1 = selectionRequestRetries p"
  by (auto simp: makeRequest_select_def getHealthyDiscoveryProviderEndpoint_def Let_def
        select_def clearCached_def addUnhealthy_def
      split: prod.splits async.splits if_splits list.splits)

lemma makeRequest_step:
  assumes "makeRequest_select p probes a = (Returned a1, p1, probes1)"
  shows "(\<exists>q a'. makeRequest p (at # rest) probes retry a = makeRequest q rest probes1 retry a'
             \<and> maxRequestsForTrue404 q = maxRequestsForTrue404 p1
             \<and> (request404Count q = request404Count p1
                  \<or> request404Count q = request404Count p1 + 1
                     \<and> request404Count q < maxRequestsForTrue404 q))
       \<or> (\<exists>out q. makeRequest p (at # rest) probes retry a = (out, q, rest, probes1)
             \<and> maxRequestsForTrue404 q = maxRequestsForTrue404 p1
             \<and> (request404Count q = 0 \<or> request404Count q = request404Count p1))"
  unfolding makeRequest_Cons[OF assms]
  by (auto split: sum.splits option.splits)

lemma counter_invariant:
  "\<lbrakk> 0 \<le> request404Count p; request404Count p < maxRequestsForTrue404 p;
     makeRequest p attempts probes retry a = (out, p', rest, probes') \<rbrakk> \<Longrightarrow>
   0 \<le> request404Count p' \<and> request404Count p' < maxRequestsForTrue404 p'
   \<and> maxRequestsForTrue404 p' = maxRequestsForTrue404 p"
proof (induction attempts arbitrary: p probes a)
  case Nil
  obtain r p1 probes1 where sel: "makeRequest_select p probes a = (r, p1, probes1)"
    by (cases "makeRequest_select p probes a") auto
  from makeRequest_select_preserves[OF sel] Nil.prems sel show ?case
    by (subst (asm) makeRequest.simps) (auto split: async.splits)
next
  case (Cons at ats)
  obtain r p1 probes1 where sel: "makeRequest_select p probes a = (r, p1, probes1)"
    by (cases "makeRequest_select p probes a") auto
  note pres = makeRequest_select_preserves[OF sel]
  show ?case
  proof (cases r)
    case Pending
    with sel pres Cons.prems show ?thesis
      by (subst (asm) makeRequest.simps) auto
  next
    case (Threw e)
    with sel pres Cons.prems show ?thesis
      by (subst (asm) makeRequest.simps) auto
  next
    case (Returned a1)
    from makeRequest_step[OF sel[unfolded Returned], of at ats retry]
    consider
      (recurse) q a' where
        "makeRequest p (at # ats) probes retry a = makeRequest q ats probes1 retry a'"
        "maxRequestsForTrue404 q = maxRequestsForTrue404 p1"
        "request404Count q = request404Count p1
           \<or> request404Count q = request404Count p1 + 1
              \<and> request404Count q < maxRequestsForTrue404 q"
    | (return) out' q where
        "makeRequest p (at # ats) probes retry a = (out', q, ats, probes1)"
        "maxRequestsForTrue404 q = maxRequestsForTrue404 p1"
        "request404Count q = 0 \<or> request404Count q = request404Count p1"
      by blast
    then show ?thesis
    proof cases
      case recurse
      note eq = recurse(1) and mq = recurse(2) and cq = recurse(3)
      have "0 \<le> request404Count q" "request404Count q < maxRequestsForTrue404 q"
        using cq mq pres Cons.prems(1,2) by auto
      moreover have "makeRequest q ats probes1 retry a' = (out, p', rest, probes')"
        using eq Cons.prems(3) by simp
      ultimately show ?thesis
        using Cons.IH[of q probes1 a'] mq pres by simp
    next
      case return
      note eq = return(1) and mq = return(2) and cq = return(3)
      from eq Cons.prems(3) have "p' = q" by simp
      with mq cq pres Cons.prems(1,2) show ?thesis by auto
    qed
  qed
qed


text \<open>
  Claim C1 says that the not-found reply number \<^verbatim>\<open>maxRequestsForTrue404\<close> + 1 is the one
  that ends the call. With the budget of 2 that the constructor sets and three not-found
  replies at hand, the call ends with \<^verbatim>\<open>null\<close> on the second reply: the third request is
  never issued and there is one reselection only.
\<close>

theorem makeRequest_404_budget_counterexample:
  "maxRequestsForTrue404 exampleProvider = 2
   \<and> makeRequest exampleProvider [notFoundAttempt, notFoundAttempt, notFoundAttempt]
        [probeFinds (Some ''https://dn2''), probeFinds (Some ''https://dn3'')] True 0
     = (Returned Null,
        exampleProvider\<lparr>serviceSelector :=
                           \<lparr> currentEndpoint = Some ''https://dn2'',
                             unhealthySet = {Some ''https://dn1''} \<rparr>,
                         discoveryProviderEndpoint := Some ''https://dn2''\<rparr>,
        [notFoundAttempt], [probeFinds (Some ''https://dn3'')])"
  by (simp add: sample_defs call_defs makeRequest.simps)

text \<open>
  Claim C1, amended. Let a request with retry start with \<^verbatim>\<open>request404Count\<close> at 0, a
  budget \<open>m = maxRequestsForTrue404 \<ge> 1\<close> and a usable endpoint, and let the replies be
  not-found replies, every reselection finding a node. Then after each of the first
  \<open>m - 1\<close> replies the call reselects (after \<open>j < m\<close> replies it has used \<open>j\<close> probe rounds,
  the counter is \<open>j\<close> and the call waits for the next reply), and reply number \<open>m\<close> ends
  the call with \<^verbatim>\<open>null\<close> at once, with no further reselection and the counter back at
  0. Whatever the world answers, the counter is below the budget whenever a call from
  this provider waits or ends.
\<close>

theorem makeRequest_404_budget:
  assumes c0: "request404Count p = 0"
    and m: "maxRequestsForTrue404 p = int m" "0 < m"
    and a: "a \<le> selectionRequestRetries p"
    and e: "truthy_str (discoveryProviderEndpoint p)"
    and ats: "length ats = m" "\<forall>at\<in>set ats. notFound at"
    and prs: "length prs = m - 1" "\<forall>pr\<in>set prs. truthy_str (winner pr)"
  shows "(\<forall>j<m. \<exists>p'. makeRequest p (take j ats) (prs @ prest) True a
                        = (Pending, p', [], drop j prs @ prest)
                      \<and> request404Count p' = int j)
       \<and> (\<exists>p'. makeRequest p (ats @ rest) (prs @ prest) True a
                  = (Returned Null, p', rest, prest)
                \<and> request404Count p' = 0)
       \<and> (\<forall>attempts probes retry a'.
             0 \<le> request404Count (fst (snd (makeRequest p attempts probes retry a')))
             \<and> request404Count (fst (snd (makeRequest p attempts probes retry a'))) < int m)"
proof (intro conjI allI impI)
  note sel = select_kept[OF a e]
  obtain at ats' where ats': "ats = at # ats'" using ats m by (cases ats) auto
  have nf: "notFound at" using ats ats' by simp
  let ?p2 = "p\<lparr>request404Count := request404Count p + 1\<rparr>"
  {
    fix j assume j: "j < m"
    show "\<exists>p'. makeRequest p (take j ats) (prs @ prest) True a
                        = (Pending, p', [], drop j prs @ prest)
                      \<and> request404Count p' = int j"
    proof (cases j)
      case 0
      with makeRequest_Nil[OF sel] c0 show ?thesis by simp
    next
      case (Suc i)
      have lt: "request404Count p + 1 < maxRequestsForTrue404 p" using c0 m j Suc by simp
      have tk: "take j ats = at # take i ats'" using Suc ats' by simp
      have split: "take j prs @ (drop j prs @ prest) = prs @ prest" by simp
      have "\<exists>p'. makeRequest ?p2 (take i ats') (take j prs @ (drop j prs @ prest)) True
                   (selectionRequestRetries ?p2 + 1)
              = (Pending, p', [], drop j prs @ prest)
            \<and> request404Count p' = request404Count ?p2 + int (length (take i ats'))"
        using ats prs j Suc ats' c0 m
        by (intro forced_chain_pending) (auto dest: in_set_takeD)
      then obtain p' where
        "makeRequest ?p2 (take i ats') (prs @ prest) True (selectionRequestRetries ?p2 + 1)
              = (Pending, p', [], drop j prs @ prest)"
        "request404Count p' = request404Count ?p2 + int (length (take i ats'))"
        unfolding split by blast
      moreover have "length (take i ats') = i" using ats ats' j Suc by simp
      ultimately show ?thesis
        using makeRequest_notFound[OF sel nf, of "take i ats'"] lt tk Suc c0
        by simp
    qed
  }
  show "\<exists>p'. makeRequest p (ats @ rest) (prs @ prest) True a
                  = (Returned Null, p', rest, prest)
                \<and> request404Count p' = 0"
  proof (cases "ats' = []")
    case True
    then have "m = 1" using ats ats' by simp
    then have "\<not> request404Count p + 1 < maxRequestsForTrue404 p" "prs = []"
      using c0 m prs by auto
    with makeRequest_notFound[OF sel nf, of "ats' @ rest"] True ats' show ?thesis by simp
  next
    case False
    then have lt: "request404Count p + 1 < maxRequestsForTrue404 p"
      using c0 m ats ats' by (cases ats') auto
    have "\<exists>p'. makeRequest ?p2 (ats' @ rest) (prs @ prest) True
                 (selectionRequestRetries ?p2 + 1)
           = (Returned Null, p', rest, prest) \<and> request404Count p' = 0"
      using ats prs ats' c0 m False by (intro forced_chain_null) auto
    with makeRequest_notFound[OF sel nf, of "ats' @ rest"] lt ats' show ?thesis by simp
  qed
  {
    fix attempts probes retry a'
    obtain out p' rest' probes' where
      run: "makeRequest p attempts probes retry a' = (out, p', rest', probes')"
      by (cases "makeRequest p attempts probes retry a'") auto
    have "0 \<le> request404Count p' \<and> request404Count p' < maxRequestsForTrue404 p'
          \<and> maxRequestsForTrue404 p' = maxRequestsForTrue404 p"
      using c0 m by (intro counter_invariant[OF _ _ run]) auto
    with run m
    show "0 \<le> request404Count (fst (snd (makeRequest p attempts probes retry a')))"
      and "request404Count (fst (snd (makeRequest p attempts probes retry a'))) < int m"
      by simp_all
  }
qed

text \<open>
  The provider of the constructor (budget 2): the first not-found reply leads to a
  reselection, the second ends the call with \<^verbatim>\<open>null\<close>.
\<close>

theorem makeRequest_404_budget_witness:
  "(\<exists>p'. makeRequest exampleProvider [notFoundAttempt] [probeFinds (Some ''https://dn2'')]
            True 0
          = (Pending, p', [], []) \<and> request404Count p' = 1)
   \<and> (\<exists>p'. makeRequest exampleProvider [notFoundAttempt, notFoundAttempt, notFoundAttempt]
            [probeFinds (Some ''https://dn2'')] True 0
          = (Returned Null, p', [notFoundAttempt], []) \<and> request404Count p' = 0)"
proof -
  have h: "request404Count exampleProvider = 0"
    "maxRequestsForTrue404 exampleProvider = int 2" "0 < (2::nat)"
    "0 \<le> selectionRequestRetries exampleProvider"
    "truthy_str (discoveryProviderEndpoint exampleProvider)"
    "length [notFoundAttempt, notFoundAttempt] = 2"
    "\<forall>at\<in>set [notFoundAttempt, notFoundAttempt]. notFound at"
    "length [probeFinds (Some ''https://dn2'')] = 2 - 1"
    "\<forall>pr\<in>set [probeFinds (Some ''https://dn2'')]. truthy_str (winner pr)"
    by (simp_all add: sample_defs notFound_def performRequestWithMonitoring_def)
  note b = makeRequest_404_budget [OF h, of "[]" "[notFoundAttempt]"]
  from b have "\<exists>p'. makeRequest exampleProvider (take 1 [notFoundAttempt, notFoundAttempt])
                  ([probeFinds (Some ''https://dn2'')] @ []) True 0
               = (Pending, p', [], drop 1 [probeFinds (Some ''https://dn2'')] @ [])
             \<and> request404Count p' = int 1"
    by (metis one_less_numeral_iff semiring_norm(76))
  moreover from b have "\<exists>p'. makeRequest exampleProvider
                  ([notFoundAttempt, notFoundAttempt] @ [notFoundAttempt])
                  ([probeFinds (Some ''https://dn2'')] @ []) True 0
               = (Returned Null, p', [notFoundAttempt], []) \<and> request404Count p' = 0"
    by blast
  ultimately show ?thesis by simp
qed

subsection \<open>The request object after building the HTTP request\<close>

lemma fold_delete_null_values:
  "fold (\<lambda>(k, v) obj. if v = None then AList.delete k obj else obj) xs obj
     = filter (\<lambda>(k, v). (k, None) \<notin> set xs) obj"
proof (induction xs arbitrary: obj)
  case Nil
  then show ?case by simp
next
  case (Cons x xs)
  obtain k v where x: "x = (k, v)" by (cases x)
  show ?case
    unfolding x
    by (auto simp: Cons.IH AList.delete_eq intro!: filter_cong)
qed

lemma sanitizeQueryParams_distinct:
  assumes "distinct (map fst qs)"
  shows "sanitizeQueryParams qs = filter (\<lambda>(k, v). v \<noteq> None) qs"
proof -
  have "(k, v) \<in> set qs \<Longrightarrow> ((k, None) \<notin> set qs) = (v \<noteq> None)" for k v
    using assms by (auto dest: eq_key_imp_eq_value)
  then show ?thesis
    unfolding sanitizeQueryParams_def fold_delete_null_values
    by (intro filter_cong) auto
qed

text \<open>
  Claim C9 says that \<^verbatim>\<open>_createDiscProvRequest\<close> leaves the request object unchanged. It
  does not: a query parameter without a value is deleted from the \<^verbatim>\<open>queryParams\<close> of
  the caller's object.
\<close>

theorem createDiscProvRequest_mutates_counterexample:
  "snd (createDiscProvRequest exampleUrlJoin exampleProvider None exampleRequest
          ''https://dn1'')
     = exampleRequest\<lparr>queryParams := Some [(''limit'', Some ''100'')]\<rparr>
   \<and> snd (createDiscProvRequest exampleUrlJoin exampleProvider None exampleRequest
            ''https://dn1'')
     \<noteq> exampleRequest"
  by (simp add: sample_defs createDiscProvRequest_def sanitizeQueryParams_def
        AList.delete_eq Let_def)

text \<open>
  Claim C9, amended. \<^verbatim>\<open>_createDiscProvRequest\<close> leaves the fields \<^verbatim>\<open>endpoint\<close>,
  \<^verbatim>\<open>urlParams\<close>, \<^verbatim>\<open>method\<close>, \<^verbatim>\<open>timeout\<close> and \<^verbatim>\<open>data\<close> of the request object
  unchanged; from its \<^verbatim>\<open>queryParams\<close> it deletes the entries whose value is
  \<^verbatim>\<open>undefined\<close> or \<^verbatim>\<open>null\<close> and keeps the others in their order, so that a request
  object all of whose query parameters have a value keeps its \<^verbatim>\<open>queryParams\<close>. (The
  keys of an object are distinct.)
\<close>

theorem createDiscProvRequest_request_object:
  assumes "queryParams requestObj = Some qs" and "distinct (map fst qs)"
  shows "(case createDiscProvRequest urlJoin p currentUserId requestObj ep of
            (axiosRequest, requestObj') \<Rightarrow>
              queryParams requestObj' = Some (filter (\<lambda>(k, v). v \<noteq> None) qs)
              \<and> ((\<forall>(k, v)\<in>set qs. v \<noteq> None) \<longrightarrow> queryParams requestObj' = queryParams requestObj)
              \<and> endpoint requestObj' = endpoint requestObj
              \<and> timeout requestObj' = timeout requestObj
              \<and> requestMethod requestObj' = requestMethod requestObj
              \<and> urlParams requestObj' = urlParams requestObj
              \<and> requestData requestObj' = requestData requestObj)"
proof -
  have "(\<forall>(k, v)\<in>set qs. v \<noteq> None) \<Longrightarrow> filter (\<lambda>(k, v). v \<noteq> None) qs = qs"
    by (induction qs) auto
  with assms show ?thesis
    by (auto simp: createDiscProvRequest_def Let_def sanitizeQueryParams_distinct
        split: option.splits prod.splits if_splits)
qed

text \<open>
  The sample request: the parameter without a value goes, the rest stays; the request
  without such a parameter keeps its query parameters.
\<close>

theorem createDiscProvRequest_request_object_witness:
  "queryParams (snd (createDiscProvRequest exampleUrlJoin exampleProvider (Some ''7'')
                       exampleRequest ''https://dn1''))
     = Some [(''limit'', Some ''100'')]
   \<and> endpoint (snd (createDiscProvRequest exampleUrlJoin exampleProvider (Some ''7'')
                      exampleRequest ''https://dn1''))
     = ''users''
   \<and> queryParams (snd (createDiscProvRequest exampleUrlJoin exampleProvider (Some ''7'')
                         (exampleRequest\<lparr>queryParams := Some [(''limit'', Some ''100'')]\<rparr>)
                         ''https://dn1''))
     = Some [(''limit'', Some ''100'')]"
proof -
  let ?clean = "exampleRequest\<lparr>queryParams := Some [(''limit'', Some ''100'')]\<rparr>"
  have h1: "queryParams exampleRequest = Some [(''limit'', Some ''100''), (''handle'', None)]"
    and h2: "distinct (map fst [(''limit'', Some ''100''), (''handle'', None :: string option)])"
    and e: "endpoint exampleRequest = ''users''"
    by (simp_all add: exampleRequest_def)
  have g1: "queryParams ?clean = Some [(''limit'', Some ''100'')]"
    and g2: "distinct (map fst [(''limit'', Some ''100'')])"
    and g3: "\<forall>(k, v)\<in>set [(''limit'', Some ''100'')]. v \<noteq> None"
    by simp_all
  from createDiscProvRequest_request_object
         [OF h1 h2, of exampleUrlJoin exampleProvider "Some ''7''" "''https://dn1''"] e
  have a: "queryParams (snd (createDiscProvRequest exampleUrlJoin exampleProvider (Some ''7'')
                       exampleRequest ''https://dn1''))
            = Some [(''limit'', Some ''100'')]
         \<and> endpoint (snd (createDiscProvRequest exampleUrlJoin exampleProvider (Some ''7'')
                      exampleRequest ''https://dn1''))
            = ''users''"
    by (simp split: prod.splits)
  from createDiscProvRequest_request_object
         [OF g1 g2, of exampleUrlJoin exampleProvider "Some ''7''" "''https://dn1''"] g3 g1
  have b: "queryParams (snd (createDiscProvRequest exampleUrlJoin exampleProvider (Some ''7'')
                         ?clean ''https://dn1''))
            = Some [(''limit'', Some ''100'')]"
    by (simp split: prod.splits)
  from a b show ?thesis by simp
qed

end
